theory Spec2Isabelle
  imports Complex_Main "HOL-Library.Char_ord" "HOL-Library.List_Lexorder"
begin

section \<open>The denormalized collision table\<close>

text \<open>
  The dashboard script \<^verbatim>\<open>app.py\<close> works on one pandas DataFrame \<^verbatim>\<open>df\<close>, the
  collision records joined with their lookup labels. A row is modelled by the cells of
  the columns the script reads. A cell that pandas holds as NaN/NaT (a missing value) is
  \<open>None\<close>. A DataFrame is the list of its rows, in index order.
\<close>

record date =
  year :: int
  month :: nat
  day :: nat

record collision =
  accident_date :: "date option"
  weekday :: "string option"
  location_type :: "string option"
  light :: "string option"
  initial_impact_type :: "string option"
  environment_condition :: "string option"
  road_surface_condition :: "string option"
  classification_of_accident :: "string option"
  num_of_injuries :: "int option"

type_synonym table = "collision list"

text \<open>\<^verbatim>\<open>Series.dt.year\<close>: the year of a timestamp, missing where the timestamp is.\<close>

definition dt_year :: "date option \<Rightarrow> int option" where
  "dt_year d = map_option year d"

text \<open>
  \<^verbatim>\<open>Series.isin(values)\<close>, for one cell. The values offered by the multiselect
  widgets are the non-missing values of the column, so a selected value is never NaN and
  a missing cell is in no selection.
\<close>

definition isin :: "'a option \<Rightarrow> 'a list \<Rightarrow> bool" where
  "isin v vals = (case v of None \<Rightarrow> False | Some x \<Rightarrow> x \<in> set vals)"

section \<open>The filter engine\<close>

text \<open>The seven multiselect results of the sidebar (lines 59-65).\<close>

record selection =
  selected_years :: "int list"
  selected_days :: "string list"
  selected_locations :: "string list"
  selected_lights :: "string list"
  selected_impacts :: "string list"
  selected_environments :: "string list"
  selected_surfaces :: "string list"

text \<open>
  Lines 67-81: \<^verbatim>\<open>filtered_df = df.copy()\<close>, then one boolean-mask indexing per
  non-empty selection. \<^verbatim>\<open>if selected_years:\<close> is the test that the list is not empty.
\<close>

definition filtered_df :: "table \<Rightarrow> selection \<Rightarrow> table" where
  "filtered_df df sel =
    (let f = df;
         f = (if selected_years sel \<noteq> []
              then filter (\<lambda>r. isin (dt_year (accident_date r)) (selected_years sel)) f else f);
         f = (if selected_days sel \<noteq> []
              then filter (\<lambda>r. isin (weekday r) (selected_days sel)) f else f);
         f = (if selected_locations sel \<noteq> []
              then filter (\<lambda>r. isin (location_type r) (selected_locations sel)) f else f);
         f = (if selected_lights sel \<noteq> []
              then filter (\<lambda>r. isin (light r) (selected_lights sel)) f else f);
         f = (if selected_impacts sel \<noteq> []
              then filter (\<lambda>r. isin (initial_impact_type r) (selected_impacts sel)) f else f);
         f = (if selected_environments sel \<noteq> []
              then filter (\<lambda>r. isin (environment_condition r) (selected_environments sel)) f
              else f);
         f = (if selected_surfaces sel \<noteq> []
              then filter (\<lambda>r. isin (road_surface_condition r) (selected_surfaces sel)) f
              else f)
     in f)"

text \<open>The five multiselect results of the map view (lines 119-123).\<close>

record map_selection =
  map_year :: "int list"
  map_location :: "string list"
  map_light :: "string list"
  map_environment :: "string list"
  map_surface :: "string list"

text \<open>Lines 125-135: the same engine on \<^verbatim>\<open>df\<close> with the map's own selections.\<close>

definition map_df :: "table \<Rightarrow> map_selection \<Rightarrow> table" where
  "map_df df sel =
    (let f = df;
         f = (if map_year sel \<noteq> []
              then filter (\<lambda>r. isin (dt_year (accident_date r)) (map_year sel)) f else f);
         f = (if map_location sel \<noteq> []
              then filter (\<lambda>r. isin (location_type r) (map_location sel)) f else f);
         f = (if map_light sel \<noteq> []
              then filter (\<lambda>r. isin (light r) (map_light sel)) f else f);
         f = (if map_environment sel \<noteq> []
              then filter (\<lambda>r. isin (environment_condition r) (map_environment sel)) f else f);
         f = (if map_surface sel \<noteq> []
              then filter (\<lambda>r. isin (road_surface_condition r) (map_surface sel)) f else f)
     in f)"

text \<open>
  The reading of the specification: one attribute restricts a row only when its selected
  list is not empty, and then by membership; a row is kept when every attribute lets it
  through.
\<close>

definition admits :: "'a list \<Rightarrow> 'a option \<Rightarrow> bool" where
  "admits vals v = (vals = [] \<or> (\<exists>x \<in> set vals. v = Some x))"

definition matches :: "selection \<Rightarrow> collision \<Rightarrow> bool" where
  "matches sel r =
    (admits (selected_years sel) (dt_year (accident_date r)) \<and>
     admits (selected_days sel) (weekday r) \<and>
     admits (selected_locations sel) (location_type r) \<and>
     admits (selected_lights sel) (light r) \<and>
     admits (selected_impacts sel) (initial_impact_type r) \<and>
     admits (selected_environments sel) (environment_condition r) \<and>
     admits (selected_surfaces sel) (road_surface_condition r))"

definition map_matches :: "map_selection \<Rightarrow> collision \<Rightarrow> bool" where
  "map_matches sel r =
    (admits (map_year sel) (dt_year (accident_date r)) \<and>
     admits (map_location sel) (location_type r) \<and>
     admits (map_light sel) (light r) \<and>
     admits (map_environment sel) (environment_condition r) \<and>
     admits (map_surface sel) (road_surface_condition r))"

text \<open>
  "Adding one value to one attribute's selected set": the attribute and the value, and
  the selection after the user picks the value in that attribute's widget.
\<close>

datatype addition =
  AddYear int | AddDay string | AddLocation string | AddLight string |
  AddImpact string | AddEnvironment string | AddSurface string

fun add_value :: "addition \<Rightarrow> selection \<Rightarrow> selection" where
  "add_value (AddYear v) sel = sel\<lparr>selected_years := selected_years sel @ [v]\<rparr>"
| "add_value (AddDay v) sel = sel\<lparr>selected_days := selected_days sel @ [v]\<rparr>"
| "add_value (AddLocation v) sel = sel\<lparr>selected_locations := selected_locations sel @ [v]\<rparr>"
| "add_value (AddLight v) sel = sel\<lparr>selected_lights := selected_lights sel @ [v]\<rparr>"
| "add_value (AddImpact v) sel = sel\<lparr>selected_impacts := selected_impacts sel @ [v]\<rparr>"
| "add_value (AddEnvironment v) sel =
     sel\<lparr>selected_environments := selected_environments sel @ [v]\<rparr>"
| "add_value (AddSurface v) sel = sel\<lparr>selected_surfaces := selected_surfaces sel @ [v]\<rparr>"

text \<open>Whether the attribute that receives the value already restricts the rows.\<close>

fun already_restricted :: "addition \<Rightarrow> selection \<Rightarrow> bool" where
  "already_restricted (AddYear v) sel = (selected_years sel \<noteq> [])"
| "already_restricted (AddDay v) sel = (selected_days sel \<noteq> [])"
| "already_restricted (AddLocation v) sel = (selected_locations sel \<noteq> [])"
| "already_restricted (AddLight v) sel = (selected_lights sel \<noteq> [])"
| "already_restricted (AddImpact v) sel = (selected_impacts sel \<noteq> [])"
| "already_restricted (AddEnvironment v) sel = (selected_environments sel \<noteq> [])"
| "already_restricted (AddSurface v) sel = (selected_surfaces sel \<noteq> [])"

text \<open>
  The names the filter block reads and binds: \<^verbatim>\<open>df\<close> is read, \<^verbatim>\<open>filtered_df\<close> is
  bound to a fresh frame (\<^verbatim>\<open>df.copy()\<close>, then boolean indexing, which both build new
  frames); nothing is assigned into \<^verbatim>\<open>df\<close>. \<open>None\<close> is a name not bound yet.
\<close>

record script_vars =
  var_df :: table
  var_filtered_df :: "table option"

definition run_global_filter :: "selection \<Rightarrow> script_vars \<Rightarrow> script_vars" where
  "run_global_filter sel vars = vars\<lparr>var_filtered_df := Some (filtered_df (var_df vars) sel)\<rparr>"

text \<open>The selection with nothing selected, and three rows used as concrete inputs.\<close>

definition no_selection :: selection where
  "no_selection =
    \<lparr>selected_years = [], selected_days = [], selected_locations = [], selected_lights = [],
     selected_impacts = [], selected_environments = [], selected_surfaces = []\<rparr>"

definition row_monday :: collision where
  "row_monday =
    \<lparr>accident_date = Some \<lparr>year = 2017, month = 1, day = 2\<rparr>, weekday = Some ''Monday'',
     location_type = Some ''Intersection'', light = Some ''Daylight'',
     initial_impact_type = Some ''Rear end'', environment_condition = Some ''Clear'',
     road_surface_condition = Some ''Dry'', classification_of_accident = Some ''P.D. only'',
     num_of_injuries = Some 0\<rparr>"

definition row_tuesday :: collision where
  "row_tuesday =
    \<lparr>accident_date = Some \<lparr>year = 2018, month = 5, day = 8\<rparr>, weekday = Some ''Tuesday'',
     location_type = Some ''Midblock'', light = Some ''Dark'',
     initial_impact_type = Some ''Angle'', environment_condition = Some ''Rain'',
     road_surface_condition = Some ''Wet'', classification_of_accident = Some ''Non-fatal injury'',
     num_of_injuries = Some 2\<rparr>"

definition row_missing :: collision where
  "row_missing =
    \<lparr>accident_date = None, weekday = None, location_type = None, light = None,
     initial_impact_type = None, environment_condition = None,
     road_surface_condition = None, classification_of_accident = None,
     num_of_injuries = None\<rparr>"

section \<open>The dataset loader\<close>

text \<open>
  \<^verbatim>\<open>load_data\<close> (lines 17-38) works on frames whose columns are not fixed in advance:
  whether a sheet or a join column is there is what decides its outcome. A frame is its
  column names and its rows, one cell per column; a cell is a value or missing (\<open>None\<close>,
  pandas' NaN). Frames are rectangular; reading past the end of a row gives a missing
  cell.
\<close>

record 'c frame =
  columns :: "string list"
  rows :: "'c option list list"

datatype exn = FileNotFoundError string | KeyError string | ValueError string

fun get_loc :: "string \<Rightarrow> string list \<Rightarrow> nat option" where
  "get_loc k [] = None"
| "get_loc k (c # cs) = (if c = k then Some 0 else map_option Suc (get_loc k cs))"

definition cell_at :: "'c option list \<Rightarrow> nat \<Rightarrow> 'c option" where
  "cell_at r i = (if i < length r then r ! i else None)"

definition drop_at :: "nat \<Rightarrow> 'a list \<Rightarrow> 'a list" where
  "drop_at j xs = take j xs @ drop (Suc j) xs"

text \<open>
  \<^verbatim>\<open>left.merge(right, on=key, how="left")\<close>. Either frame lacking the key column raises
  \<^verbatim>\<open>KeyError\<close>. Otherwise every left row, in order, is paired with each right row that
  has the same key (missing keys match each other), in the right frame's order, or with
  missing cells when no right row matches. The key column appears once; a name that
  both frames have besides the key gets the suffixes \<^verbatim>\<open>_x\<close> and \<^verbatim>\<open>_y\<close>.
\<close>

definition merged_columns :: "'c frame \<Rightarrow> 'c frame \<Rightarrow> string \<Rightarrow> nat \<Rightarrow> string list" where
  "merged_columns left right on j =
     map (\<lambda>c. if c \<noteq> on \<and> c \<in> set (columns right) then c @ ''_x'' else c) (columns left) @
     map (\<lambda>c. if c \<in> set (columns left) then c @ ''_y'' else c) (drop_at j (columns right))"

definition joined_rows ::
  "'c option list \<Rightarrow> nat \<Rightarrow> 'c frame \<Rightarrow> nat \<Rightarrow> 'c option list list" where
  "joined_rows l i right j =
     (let ms = filter (\<lambda>q. cell_at q j = cell_at l i) (rows right)
      in if ms = [] then [l @ replicate (length (columns right) - 1) None]
         else map (\<lambda>q. l @ drop_at j q) ms)"

definition merge_left :: "'c frame \<Rightarrow> 'c frame \<Rightarrow> string \<Rightarrow> exn + 'c frame" where
  "merge_left left right on =
     (case get_loc on (columns left) of
        None \<Rightarrow> Inl (KeyError on)
      | Some i \<Rightarrow>
         (case get_loc on (columns right) of
            None \<Rightarrow> Inl (KeyError on)
          | Some j \<Rightarrow>
             Inr \<lparr>columns = merged_columns left right on j,
                  rows = concat (map (\<lambda>l. joined_rows l i right j) (rows left))\<rparr>))"

text \<open>
  The two input files: \<open>None\<close> is a file that cannot be read. The workbook is read with
  \<^verbatim>\<open>sheet_name=None\<close>, which gives a dict from sheet name to frame.
\<close>

record 'c files =
  csv :: "'c frame option"
  xlsx :: "(string \<times> 'c frame) list option"

text \<open>Line 19. \<^verbatim>\<open>parse_dates\<close> naming a column the file lacks raises \<^verbatim>\<open>ValueError\<close>.\<close>

definition read_csv :: "'c files \<Rightarrow> exn + 'c frame" where
  "read_csv fs =
     (case csv fs of
        None \<Rightarrow> Inl (FileNotFoundError ''Data/Cleaned_Traffic_Data.csv'')
      | Some f \<Rightarrow>
         if ''accident_date'' \<in> set (columns f) then Inr f
         else Inl (ValueError ''accident_date''))"

text \<open>Line 20.\<close>

definition read_excel :: "'c files \<Rightarrow> exn + (string \<times> 'c frame) list" where
  "read_excel fs =
     (case xlsx fs of
        None \<Rightarrow> Inl (FileNotFoundError ''Data/Dimtables.xlsx'')
      | Some d \<Rightarrow> Inr d)"

text \<open>Lines 23-30: the sheet and the join column of each merge, in the order of the source.\<close>

definition dim_joins :: "(string \<times> string) list" where
  "dim_joins =
    [(''Dimlocation_type'', ''location_type_id''),
     (''Dimclassification_of_accident'', ''Classificationid''),
     (''Diminitial_impact_type'', ''impactid''),
     (''Dimroad_surface_condition'', ''road_conditionid''),
     (''Dimenvironment_condition'', ''environmentid''),
     (''Dimlight'', ''lightid''),
     (''Dimtraffic_control'', ''trafficid''),
     (''Dimmax_injury'', ''injuryid'')]"

text \<open>
  One statement \<^verbatim>\<open>fact_df = fact_df.merge(dim_data[sheet], on=key, how="left")\<close>: an
  exception raised earlier skips it; \<^verbatim>\<open>dim_data[sheet]\<close> is evaluated first and raises
  \<^verbatim>\<open>KeyError\<close> for a sheet the workbook lacks.
\<close>

definition merge_dim ::
  "(string \<times> 'c frame) list \<Rightarrow> exn + 'c frame \<Rightarrow> string \<times> string \<Rightarrow> exn + 'c frame" where
  "merge_dim dim_data acc j =
     (case acc of
        Inl e \<Rightarrow> Inl e
      | Inr fact_df \<Rightarrow>
         (case map_of dim_data (fst j) of
            None \<Rightarrow> Inl (KeyError (fst j))
          | Some d \<Rightarrow> merge_left fact_df d (snd j)))"

definition run_joins ::
  "(string \<times> 'c frame) list \<Rightarrow> exn + 'c frame \<Rightarrow> (string \<times> string) list \<Rightarrow> exn + 'c frame" where
  "run_joins dim_data acc js = foldl (merge_dim dim_data) acc js"

text \<open>The body of the \<^verbatim>\<open>try\<close> (lines 19-33), with the exception it raises as a value.\<close>

definition load_data_try :: "'c files \<Rightarrow> exn + ('c frame \<times> (string \<times> 'c frame) list)" where
  "load_data_try fs =
     (case read_csv fs of
        Inl e \<Rightarrow> Inl e
      | Inr fact_df \<Rightarrow>
         (case read_excel fs of
            Inl e \<Rightarrow> Inl e
          | Inr dim_data \<Rightarrow>
             (case run_joins dim_data (Inr fact_df) dim_joins of
                Inl e \<Rightarrow> Inl e
              | Inr df \<Rightarrow> Inr (df, dim_data))))"

text \<open>
  What the script writes to the log file and to the page. A log line made with an
  f-string over the exception is kept as its fixed text and the exception.
\<close>

datatype log_entry = LogInfo string | LogWarning string exn | LogError string exn

datatype ui_event = StError string | StMetric string string | StElement string

record 'c load_result =
  ret_df :: "'c frame"
  ret_dim_data :: "(string \<times> 'c frame) list"
  logged :: "log_entry list"
  shown :: "ui_event list"

text \<open>
  \<^verbatim>\<open>load_data\<close>, lines 17-38: the \<^verbatim>\<open>except\<close> clause logs the exception, shows a fixed
  message and returns \<^verbatim>\<open>pd.DataFrame(), {}\<close>.
\<close>

definition load_data :: "'c files \<Rightarrow> 'c load_result" where
  "load_data fs =
     (case load_data_try fs of
        Inr (df, dim_data) \<Rightarrow>
          \<lparr>ret_df = df, ret_dim_data = dim_data,
           logged = [LogInfo ''Data loaded and merged successfully.''], shown = []\<rparr>
      | Inl e \<Rightarrow>
          \<lparr>ret_df = \<lparr>columns = [], rows = []\<rparr>, ret_dim_data = [],
           logged = [LogError ''Error loading data: '' e],
           shown = [StError ''Failed to load data. Please check the log file for details.'']\<rparr>)"

text \<open>\<^verbatim>\<open>DataFrame.empty\<close>: some axis has length zero.\<close>

definition frame_empty :: "'c frame \<Rightarrow> bool" where
  "frame_empty f = (columns f = [] \<or> rows f = [])"

text \<open>
  Lines 41-44 and what follows: \<^verbatim>\<open>st.stop()\<close> ends the run when the loaded frame is
  empty. \<open>dashboard\<close> stands for everything the script renders from line 46 on, given
  the loaded frame and lookup tables. The result is what the page shows.
\<close>

definition script ::
  "'c files \<Rightarrow> ('c frame \<Rightarrow> (string \<times> 'c frame) list \<Rightarrow> ui_event list) \<Rightarrow> ui_event list" where
  "script fs dashboard =
     (let r = load_data fs
      in if frame_empty (ret_df r) then shown r
         else shown r @ dashboard (ret_df r) (ret_dim_data r))"

text \<open>The three named causes of a failing load.\<close>

definition missing_file :: "'c files \<Rightarrow> bool" where
  "missing_file fs = (csv fs = None \<or> xlsx fs = None)"

definition missing_sheet :: "'c files \<Rightarrow> bool" where
  "missing_sheet fs =
     (case xlsx fs of
        None \<Rightarrow> False
      | Some dim_data \<Rightarrow> \<exists>j \<in> set dim_joins. map_of dim_data (fst j) = None)"

text \<open>
  A join key is missing when some merge is reached (the merges before it succeeded) and
  the frame built so far or the lookup sheet lacks the join column.
\<close>

definition missing_join_key :: "'c files \<Rightarrow> bool" where
  "missing_join_key fs =
     (case csv fs of
        None \<Rightarrow> False
      | Some fact_df \<Rightarrow>
         (case xlsx fs of
            None \<Rightarrow> False
          | Some dim_data \<Rightarrow>
             (\<exists>n < length dim_joins.
                case run_joins dim_data (Inr fact_df) (take n dim_joins) of
                  Inl e \<Rightarrow> False
                | Inr f \<Rightarrow>
                   (case map_of dim_data (fst (dim_joins ! n)) of
                      None \<Rightarrow> False
                    | Some d \<Rightarrow>
                       snd (dim_joins ! n) \<notin> set (columns f) \<or>
                       snd (dim_joins ! n) \<notin> set (columns d)))))"

text \<open>
  An exception names something missing when it is the \<^verbatim>\<open>FileNotFoundError\<close> of a file
  that cannot be read, the \<^verbatim>\<open>ValueError\<close> of a CSV file without the date column, or,
  for a merge that is reached, the \<^verbatim>\<open>KeyError\<close> of its sheet when the workbook lacks
  it, else of its join column when the frame built so far or the sheet lacks it.
\<close>

definition names_missing :: "'c files \<Rightarrow> exn \<Rightarrow> bool" where
  "names_missing fs e =
     ((e = FileNotFoundError ''Data/Cleaned_Traffic_Data.csv'' \<and> csv fs = None) \<or>
      (e = FileNotFoundError ''Data/Dimtables.xlsx'' \<and> xlsx fs = None) \<or>
      (e = ValueError ''accident_date'' \<and>
         (case csv fs of None \<Rightarrow> False | Some f \<Rightarrow> ''accident_date'' \<notin> set (columns f))) \<or>
      (case csv fs of
         None \<Rightarrow> False
       | Some fact_df \<Rightarrow>
          (case xlsx fs of
             None \<Rightarrow> False
           | Some dim_data \<Rightarrow>
              (\<exists>n < length dim_joins.
                 case run_joins dim_data (Inr fact_df) (take n dim_joins) of
                   Inl x \<Rightarrow> False
                 | Inr f \<Rightarrow>
                    (case map_of dim_data (fst (dim_joins ! n)) of
                       None \<Rightarrow> e = KeyError (fst (dim_joins ! n))
                     | Some d \<Rightarrow>
                        e = KeyError (snd (dim_joins ! n)) \<and>
                        (snd (dim_joins ! n) \<notin> set (columns f) \<or>
                         snd (dim_joins ! n) \<notin> set (columns d)))))))"

text \<open>The key column of a lookup sheet, and the precondition that its keys are unique.\<close>

definition key_column :: "string \<Rightarrow> 'c frame \<Rightarrow> 'c option list" where
  "key_column on f =
     (case get_loc on (columns f) of
        None \<Rightarrow> []
      | Some j \<Rightarrow> map (\<lambda>q. cell_at q j) (rows f))"

definition unique_lookup_keys :: "(string \<times> 'c frame) list \<Rightarrow> bool" where
  "unique_lookup_keys dim_data =
     (\<forall>j \<in> set dim_joins.
        case map_of dim_data (fst j) of
          None \<Rightarrow> True
        | Some d \<Rightarrow> distinct (key_column (snd j) d))"

section \<open>Aggregates\<close>

text \<open>\<^verbatim>\<open>Series.dropna()\<close>: the non-missing values, in order.\<close>

fun dropna :: "'a option list \<Rightarrow> 'a list" where
  "dropna [] = []"
| "dropna (None # xs) = dropna xs"
| "dropna (Some x # xs) = x # dropna xs"

text \<open>The distinct values in order of first appearance.\<close>

definition unique :: "'a list \<Rightarrow> 'a list" where
  "unique xs = rev (remdups (rev xs))"

text \<open>
  \<^verbatim>\<open>Series.value_counts()\<close>: one entry per distinct non-missing value, indexed by the
  value, holding the number of its occurrences, the most frequent first.
\<close>

definition value_counts :: "'a option list \<Rightarrow> ('a \<times> nat) list" where
  "value_counts col =
     (let vals = dropna col
      in sort_key (\<lambda>p. - int (snd p)) (map (\<lambda>v. (v, count_list vals v)) (unique vals)))"

text \<open>
  \<^verbatim>\<open>Series.reindex(labels)\<close> followed by \<^verbatim>\<open>reset_index()\<close>: one row per requested label,
  in the order of the labels, with the series' value at that label, and a missing value
  for a label the series' index lacks (no \<^verbatim>\<open>fill_value\<close> is given).
\<close>

definition reindex :: "'k list \<Rightarrow> ('k \<times> 'v) list \<Rightarrow> ('k \<times> 'v option) list" where
  "reindex labels series = map (\<lambda>l. (l, map_of series l)) labels"

definition weekday_order :: "string list" where
  "weekday_order =
    [''Monday'', ''Tuesday'', ''Wednesday'', ''Thursday'', ''Friday'', ''Saturday'', ''Sunday'']"

text \<open>Lines 110-113: the frame with the columns \<^verbatim>\<open>Weekday\<close> and \<^verbatim>\<open>Count\<close>.\<close>

definition weekday_counts :: "table \<Rightarrow> (string \<times> nat option) list" where
  "weekday_counts fdf = reindex weekday_order (value_counts (map weekday fdf))"

text \<open>
  \<^verbatim>\<open>Series.mode()\<close>: the non-missing values that occur most often, sorted ascending; the
  empty series when there is no non-missing value.
\<close>

definition mode :: "'a::linorder option list \<Rightarrow> 'a list" where
  "mode col =
     (let vals = dropna col;
          top = fold max (map (count_list vals) (unique vals)) 0
      in sort (filter (\<lambda>v. count_list vals v = top) (unique vals)))"

text \<open>
  \<^verbatim>\<open>series[0]\<close> on the result of \<^verbatim>\<open>mode()\<close>, whose index is 0, 1, ...: the first
  value, and \<^verbatim>\<open>KeyError\<close> when the series is empty.
\<close>

definition item0 :: "'a list \<Rightarrow> exn + 'a" where
  "item0 xs = (case xs of [] \<Rightarrow> Inl (KeyError ''0'') | x # _ \<Rightarrow> Inr x)"

text \<open>
  Lines 158, 161 and 164. The typed table always has its columns, so
  \<^verbatim>\<open>filtered_df.empty\<close> is the test that it has no rows.
\<close>

definition top_day :: "table \<Rightarrow> exn + string" where
  "top_day fdf = (if fdf \<noteq> [] then item0 (mode (map weekday fdf)) else Inr ''N/A'')"

definition top_light :: "table \<Rightarrow> exn + string" where
  "top_light fdf = (if fdf \<noteq> [] then item0 (mode (map light fdf)) else Inr ''N/A'')"

definition top_surface :: "table \<Rightarrow> exn + string" where
  "top_surface fdf =
     (if fdf \<noteq> [] then item0 (mode (map road_surface_condition fdf)) else Inr ''N/A'')"

text \<open>
  Lines 154-167, the insight summary: the metrics shown and the log lines written. An
  exception leaves the \<^verbatim>\<open>try\<close> at once, so the metrics after it are not shown.
\<close>

definition insight_summary :: "table \<Rightarrow> ui_event list \<times> log_entry list" where
  "insight_summary fdf =
     (case top_day fdf of
        Inl e \<Rightarrow> ([], [LogWarning ''Insight summary error: '' e])
      | Inr d \<Rightarrow>
         (case top_light fdf of
            Inl e \<Rightarrow>
              ([StMetric ''Most Frequent Day'' d], [LogWarning ''Insight summary error: '' e])
          | Inr l \<Rightarrow>
             (case top_surface fdf of
                Inl e \<Rightarrow>
                  ([StMetric ''Most Frequent Day'' d,
                    StMetric ''Most Common Light Condition'' l],
                   [LogWarning ''Insight summary error: '' e])
              | Inr s \<Rightarrow>
                  ([StMetric ''Most Frequent Day'' d,
                    StMetric ''Most Common Light Condition'' l,
                    StMetric ''Top Road Surface'' s], []))))"

text \<open>
  The values with the highest number of occurrences among the non-missing values of a
  column, as the specification describes the mode.
\<close>

definition most_frequent :: "'a option list \<Rightarrow> 'a set" where
  "most_frequent col =
     {v \<in> set (dropna col). \<forall>w \<in> set (dropna col).
        count_list (dropna col) w \<le> count_list (dropna col) v}"

text \<open>
  Numbers as numpy computes them: a sum of integer counts, and the result of a true
  division, which for a zero divisor is not an exception but an infinity or NaN. Finite
  quotients are kept exact; the rounding of the 64-bit float is not modelled.
\<close>

datatype number = Finite rat | PosInf | NegInf | NotANumber

definition true_divide :: "int \<Rightarrow> nat \<Rightarrow> number" where
  "true_divide s n =
     (if n = 0 then (if s = 0 then NotANumber else if 0 < s then PosInf else NegInf)
      else Finite (of_int s / of_nat n))"

text \<open>\<^verbatim>\<open>Series.sum()\<close>: missing values are skipped; the sum of no values is 0.\<close>

definition column_sum :: "int option list \<Rightarrow> int" where
  "column_sum col = sum_list (dropna col)"

text \<open>Lines 172 and 173.\<close>

definition all_avg_injury_rate :: "table \<Rightarrow> number" where
  "all_avg_injury_rate df = true_divide (column_sum (map num_of_injuries df)) (length df)"

definition filtered_avg_injury_rate :: "table \<Rightarrow> number" where
  "filtered_avg_injury_rate fdf =
     (if length fdf > 0
      then true_divide (column_sum (map num_of_injuries fdf)) (length fdf)
      else Finite 0)"

text \<open>A row that only gives values to the columns the aggregates examples read.\<close>

definition row_on :: "string option \<Rightarrow> int option \<Rightarrow> collision" where
  "row_on d n = row_missing\<lparr>weekday := d, num_of_injuries := n\<rparr>"

text \<open>The number of rows of a table whose weekday is a given day.\<close>

definition occurrences :: "string \<Rightarrow> table \<Rightarrow> nat" where
  "occurrences d fdf = length (filter (\<lambda>r. weekday r = Some d) fdf)"

text \<open>The three-row table of the weekday scenario, and a table with a tie.\<close>

definition example_weekdays :: table where
  "example_weekdays =
    [row_on (Some ''Monday'') (Some 1), row_on (Some ''Monday'') None,
     row_on (Some ''Tuesday'') (Some 4)]"

definition example_tie :: table where
  "example_tie =
    [row_on (Some ''Monday'') None, row_on (Some ''Friday'') None, row_on None None,
     row_on (Some ''Friday'') None, row_on (Some ''Monday'') None,
     row_on (Some ''Sunday'') None]"

text \<open>A two-row fact table and a workbook with the eight sheets, as concrete inputs.\<close>

definition example_fact :: "string frame" where
  "example_fact =
    \<lparr>columns = [''accident_date'', ''location_type_id'', ''Classificationid'', ''impactid'',
                ''road_conditionid'', ''environmentid'', ''lightid'', ''trafficid'', ''injuryid''],
     rows = [[Some ''2017-01-02'', Some ''1'', Some ''1'', Some ''1'', Some ''1'', Some ''1'',
              Some ''1'', Some ''1'', Some ''1''],
             [Some ''2018-05-08'', Some ''7'', None, Some ''1'', Some ''1'', Some ''1'',
              Some ''1'', Some ''1'', Some ''1'']]\<rparr>"

definition example_sheet :: "string \<Rightarrow> string \<Rightarrow> string \<Rightarrow> string frame" where
  "example_sheet on label v =
    \<lparr>columns = [on, label], rows = [[Some ''1'', Some v], [Some ''2'', Some ''Other'']]\<rparr>"

definition example_dims :: "(string \<times> string frame) list" where
  "example_dims =
    [(''Dimlocation_type'', example_sheet ''location_type_id'' ''location_type'' ''Intersection''),
     (''Dimclassification_of_accident'',
        example_sheet ''Classificationid'' ''classification_of_accident'' ''P.D. only''),
     (''Diminitial_impact_type'', example_sheet ''impactid'' ''initial_impact_type'' ''Angle''),
     (''Dimroad_surface_condition'',
        example_sheet ''road_conditionid'' ''road_surface_condition'' ''Dry''),
     (''Dimenvironment_condition'',
        example_sheet ''environmentid'' ''environment_condition'' ''Clear''),
     (''Dimlight'', example_sheet ''lightid'' ''light'' ''Daylight''),
     (''Dimtraffic_control'', example_sheet ''trafficid'' ''traffic_control'' ''Stop sign''),
     (''Dimmax_injury'', example_sheet ''injuryid'' ''max_injury'' ''None'')]"

text \<open>A workbook that lacks every sheet.\<close>

definition example_no_sheets :: "string files" where
  "example_no_sheets = \<lparr>csv = Some example_fact, xlsx = Some []\<rparr>"

text \<open>A missing CSV file, and a workbook whose light sheet lacks the join column.\<close>

definition example_no_csv :: "string files" where
  "example_no_csv = \<lparr>csv = None, xlsx = Some example_dims\<rparr>"

definition example_no_key :: "string files" where
  "example_no_key =
    \<lparr>csv = Some example_fact,
     xlsx = Some ((''Dimlight'', example_sheet ''light_id'' ''light'' ''Daylight'') # example_dims)\<rparr>"

section \<open>Properties of the filter engine\<close>

lemma admits_isin: "admits vals v = (vals = [] \<or> isin v vals)"
  by (cases v) (auto simp: admits_def isin_def)

lemma filter_if_nonempty:
  "(if vals \<noteq> [] then filter (\<lambda>r. isin (g r) vals) f else f) = filter (\<lambda>r. admits vals (g r)) f"
  by (simp add: admits_isin)

lemma filtered_df_filter: "filtered_df df sel = filter (matches sel) df"
  unfolding filtered_df_def Let_def filter_if_nonempty filter_filter
  by (rule filter_cong [OF refl]) (auto simp: matches_def)

lemma map_df_filter: "map_df df sel = filter (map_matches sel) df"
  unfolding map_df_def Let_def filter_if_nonempty filter_filter
  by (rule filter_cong [OF refl]) (auto simp: map_matches_def)

lemma filtered_df_subset:
  assumes "\<And>r. matches sel r \<Longrightarrow> matches sel' r"
  shows "set (filtered_df df sel) \<subseteq> set (filtered_df df sel')"
  using assms by (auto simp: filtered_df_filter)

lemma admits_append: "vals \<noteq> [] \<Longrightarrow> admits vals v \<Longrightarrow> admits (vals @ [x]) v"
  by (auto simp: admits_def)

text \<open>
  Claim C1. For every table and selection, the filter engine keeps exactly the rows that
  every attribute with a non-empty selected list admits by membership (the year
  attribute through the year of the date), in their original order; an attribute with an
  empty list restricts nothing. This holds for the global filter and for the map filter.
\<close>

theorem filter_engine_exact:
  "filtered_df df sel = filter (matches sel) df \<and>
   map_df df msel = filter (map_matches msel) df"
  by (simp add: filtered_df_filter map_df_filter)

theorem filter_engine_exact_witness:
  "filtered_df [row_monday, row_tuesday, row_missing]
     (no_selection\<lparr>selected_years := [2017, 2018], selected_days := [''Tuesday'']\<rparr>)
     = [row_tuesday] \<and>
   map_df [row_monday, row_tuesday, row_missing]
     \<lparr>map_year = [], map_location = [''Intersection''], map_light = [''Daylight'', ''Dark''],
      map_environment = [], map_surface = []\<rparr>
     = [row_monday]"
  using filter_engine_exact [of "[row_monday, row_tuesday, row_missing]"
      "no_selection\<lparr>selected_years := [2017, 2018], selected_days := [''Tuesday'']\<rparr>"
      "\<lparr>map_year = [], map_location = [''Intersection''], map_light = [''Daylight'', ''Dark''],
        map_environment = [], map_surface = []\<rparr>"]
  by (simp add: matches_def map_matches_def admits_def dt_year_def no_selection_def
      row_monday_def row_tuesday_def row_missing_def)

text \<open>
  Claim C4. With nothing selected in any attribute, the filtered table is the input table,
  row for row, and running the filter block leaves the table bound to \<^verbatim>\<open>df\<close> as it was.
\<close>

theorem empty_selection_identity:
  assumes "selected_years sel = []" and "selected_days sel = []"
    and "selected_locations sel = []" and "selected_lights sel = []"
    and "selected_impacts sel = []" and "selected_environments sel = []"
    and "selected_surfaces sel = []"
  shows "filtered_df df sel = df \<and>
         var_filtered_df (run_global_filter sel vars) = Some (var_df vars) \<and>
         var_df (run_global_filter sel vars) = var_df vars"
  using assms by (simp add: filtered_df_def run_global_filter_def)

theorem empty_selection_identity_witness:
  "filtered_df [row_monday, row_missing, row_monday] no_selection
     = [row_monday, row_missing, row_monday] \<and>
   var_filtered_df (run_global_filter no_selection
       \<lparr>var_df = [row_tuesday], var_filtered_df = None\<rparr>) = Some [row_tuesday] \<and>
   var_df (run_global_filter no_selection
       \<lparr>var_df = [row_tuesday], var_filtered_df = None\<rparr>) = [row_tuesday]"
  using empty_selection_identity [of no_selection "[row_monday, row_missing, row_monday]"
      "\<lparr>var_df = [row_tuesday], var_filtered_df = None\<rparr>"]
  by (simp add: no_selection_def)

text \<open>
  Claim C5. Filtering the result of a filter again with the same selection changes
  nothing.
\<close>

theorem filter_idempotent:
  "filtered_df (filtered_df df sel) sel = filtered_df df sel"
  by (simp add: filtered_df_filter)

theorem filter_idempotent_witness:
  "filtered_df (filtered_df [row_monday, row_tuesday, row_missing]
       (no_selection\<lparr>selected_days := [''Monday'', ''Tuesday'']\<rparr>))
     (no_selection\<lparr>selected_days := [''Monday'', ''Tuesday'']\<rparr>)
   = [row_monday, row_tuesday]"
  using filter_idempotent [of "[row_monday, row_tuesday, row_missing]"
      "no_selection\<lparr>selected_days := [''Monday'', ''Tuesday'']\<rparr>"]
  by (simp add: filtered_df_filter matches_def admits_def no_selection_def
      row_monday_def row_tuesday_def row_missing_def)

text \<open>
  Claim C6, as stated: adding a value to one attribute's selected set never loses a row.
  It fails when the attribute had nothing selected: the empty list restricts nothing, the
  one-value list does. With no selection the Tuesday row is kept; after picking Monday
  as the only day it is dropped.
\<close>

theorem filter_monotone_counterexample:
  "\<not> set (filtered_df [row_tuesday] no_selection)
       \<subseteq> set (filtered_df [row_tuesday] (add_value (AddDay ''Monday'') no_selection))"
  by (simp add: filtered_df_filter matches_def admits_def no_selection_def row_tuesday_def)

text \<open>
  Claim C6, amended: when the attribute that receives the value already has a non-empty
  selected list, every row of the filtered table is a row of the table filtered with the
  larger selection.
\<close>

theorem filter_monotone_restricted:
  assumes "already_restricted a sel"
  shows "set (filtered_df df sel) \<subseteq> set (filtered_df df (add_value a sel))"
proof (rule filtered_df_subset)
  fix r assume "matches sel r"
  with assms show "matches (add_value a sel) r"
    by (cases a) (simp_all add: matches_def admits_append)
qed

theorem filter_monotone_restricted_witness:
  "already_restricted (AddDay ''Tuesday'') (no_selection\<lparr>selected_days := [''Monday'']\<rparr>) \<and>
   set (filtered_df [row_monday, row_tuesday] (no_selection\<lparr>selected_days := [''Monday'']\<rparr>))
     \<subseteq> set (filtered_df [row_monday, row_tuesday]
         (add_value (AddDay ''Tuesday'') (no_selection\<lparr>selected_days := [''Monday'']\<rparr>)))"
proof -
  have h: "already_restricted (AddDay ''Tuesday'') (no_selection\<lparr>selected_days := [''Monday'']\<rparr>)"
    by simp
  show ?thesis
    using h filter_monotone_restricted [OF h, of "[row_monday, row_tuesday]"] by simp
qed

section \<open>Properties of the loader\<close>

lemma filter_key_le_one:
  "distinct (map g qs) \<Longrightarrow> length (filter (\<lambda>q. g q = v) qs) \<le> Suc 0"
  by (induction qs) (auto simp: filter_empty_conv image_iff)

lemma joined_rows_one:
  assumes "length (filter (\<lambda>q. cell_at q j = cell_at l i) (rows right)) \<le> Suc 0"
  shows "length (joined_rows l i right j) = Suc 0"
  using assms by (auto simp: joined_rows_def Let_def le_Suc_eq)

lemma length_concat_ones:
  "(\<And>x. x \<in> set xs \<Longrightarrow> length (f x) = Suc 0) \<Longrightarrow> length (concat (map f xs)) = length xs"
  by (induction xs) auto

lemma merge_left_row_count:
  assumes "merge_left left right on = Inr m"
    and "distinct (key_column on right)"
  shows "length (rows m) = length (rows left)"
proof -
  from assms(1) obtain i j where i: "get_loc on (columns left) = Some i"
    and j: "get_loc on (columns right) = Some j"
    and m: "m = \<lparr>columns = merged_columns left right on j,
                 rows = concat (map (\<lambda>l. joined_rows l i right j) (rows left))\<rparr>"
    by (auto simp: merge_left_def split: option.splits)
  from assms(2) j have "distinct (map (\<lambda>q. cell_at q j) (rows right))"
    by (simp add: key_column_def)
  then have "\<And>l. length (joined_rows l i right j) = Suc 0"
    by (intro joined_rows_one filter_key_le_one)
  then show ?thesis
    by (simp add: m length_concat_ones)
qed

lemma run_joins_Inl: "run_joins dim_data (Inl e) js = Inl e"
  by (induction js) (simp_all add: run_joins_def merge_dim_def)

lemma run_joins_snoc:
  "run_joins dim_data acc (js @ [j]) = merge_dim dim_data (run_joins dim_data acc js) j"
  by (simp add: run_joins_def)

lemma run_joins_append:
  "run_joins dim_data acc (js @ ks) = run_joins dim_data (run_joins dim_data acc js) ks"
  by (simp add: run_joins_def)

lemma run_joins_row_count:
  assumes "run_joins dim_data (Inr fact_df) js = Inr df"
    and "\<forall>j \<in> set js. case map_of dim_data (fst j) of
            None \<Rightarrow> True | Some d \<Rightarrow> distinct (key_column (snd j) d)"
  shows "length (rows df) = length (rows fact_df)"
  using assms
proof (induction js arbitrary: df rule: rev_induct)
  case Nil
  then show ?case by (simp add: run_joins_def)
next
  case (snoc j js)
  from snoc.prems(1) obtain f where f: "run_joins dim_data (Inr fact_df) js = Inr f"
    by (cases "run_joins dim_data (Inr fact_df) js") (simp_all add: run_joins_snoc merge_dim_def)
  with snoc.prems(1) obtain d where d: "map_of dim_data (fst j) = Some d"
    and m: "merge_left f d (snd j) = Inr df"
    by (auto simp: run_joins_snoc merge_dim_def split: option.splits)
  from snoc.prems(2) d have "distinct (key_column (snd j) d)" by simp
  with m have "length (rows df) = length (rows f)" by (rule merge_left_row_count)
  moreover from snoc.IH [OF f] snoc.prems(2) have "length (rows f) = length (rows fact_df)" by simp
  ultimately show ?case by simp
qed


text \<open>
  Claim C2. When the load succeeds and every lookup sheet has unique keys in its join
  column, the frame \<^verbatim>\<open>load_data\<close> returns after its eight left merges has exactly as
  many rows as the fact table read from the CSV file.
\<close>

theorem left_joins_preserve_row_count:
  assumes "csv fs = Some fact_df" and "xlsx fs = Some dim_data"
    and "\<not> isl (load_data_try fs)"
    and "unique_lookup_keys dim_data"
  shows "length (rows (ret_df (load_data fs))) = length (rows fact_df)"
proof -
  from assms(3) obtain df dd where ok: "load_data_try fs = Inr (df, dd)"
    by (cases "load_data_try fs") auto
  with assms(1,2) have r: "run_joins dim_data (Inr fact_df) dim_joins = Inr df"
    by (auto simp: load_data_try_def read_csv_def read_excel_def
        split: sum.splits option.splits if_splits)
  from r assms(4) have "length (rows df) = length (rows fact_df)"
    unfolding unique_lookup_keys_def by (rule run_joins_row_count)
  with ok show ?thesis by (simp add: load_data_def)
qed

lemmas loader_eval =
  load_data_try_def read_csv_def read_excel_def example_fact_def example_dims_def
  example_sheet_def run_joins_def dim_joins_def merge_dim_def merge_left_def
  merged_columns_def joined_rows_def cell_at_def drop_at_def

theorem left_joins_preserve_row_count_witness:
  "length (rows (ret_df (load_data \<lparr>csv = Some example_fact, xlsx = Some example_dims\<rparr>))) = 2"
proof -
  have 1: "csv \<lparr>csv = Some example_fact, xlsx = Some example_dims\<rparr> = Some example_fact"
    by simp
  have 2: "xlsx \<lparr>csv = Some example_fact, xlsx = Some example_dims\<rparr> = Some example_dims"
    by simp
  have 3: "\<not> isl (load_data_try \<lparr>csv = Some example_fact, xlsx = Some example_dims\<rparr>)"
    by (simp add: loader_eval)
  have 4: "unique_lookup_keys example_dims"
    by (simp add: unique_lookup_keys_def dim_joins_def example_dims_def example_sheet_def
        key_column_def cell_at_def)
  show ?thesis
    using left_joins_preserve_row_count [OF 1 2 3 4] by (simp add: example_fact_def)
qed


lemma get_loc_None: "get_loc k cs = None \<longleftrightarrow> k \<notin> set cs"
  by (induction cs) auto

lemma merge_left_missing_key:
  "on \<notin> set (columns left) \<or> on \<notin> set (columns right) \<Longrightarrow>
   merge_left left right on = Inl (KeyError on)"
  by (cases "get_loc on (columns left)"; cases "get_loc on (columns right)")
    (auto simp: merge_left_def get_loc_None [symmetric])

lemma run_joins_missing_sheet:
  assumes "j \<in> set js" and "map_of dim_data (fst j) = None"
  shows "isl (run_joins dim_data acc js)"
proof -
  from assms(1) obtain xs ys where js: "js = xs @ j # ys"
    by (auto dest: split_list)
  from assms(2) have "isl (merge_dim dim_data (run_joins dim_data acc xs) j)"
    by (simp add: merge_dim_def split: sum.splits)
  then obtain e where "run_joins dim_data acc (xs @ [j]) = Inl e"
    by (auto simp: run_joins_snoc isl_def)
  then have "run_joins dim_data acc ((xs @ [j]) @ ys) = Inl e"
    by (simp only: run_joins_append run_joins_Inl)
  with js show ?thesis by simp
qed

lemma run_joins_missing_key:
  assumes "n < length js"
    and "run_joins dim_data acc (take n js) = Inr f"
    and "map_of dim_data (fst (js ! n)) = Some d"
    and "snd (js ! n) \<notin> set (columns f) \<or> snd (js ! n) \<notin> set (columns d)"
  shows "isl (run_joins dim_data acc js)"
proof -
  from assms(1) have js: "js = (take n js @ [js ! n]) @ drop (Suc n) js"
    by (simp add: id_take_nth_drop [symmetric])
  from assms(2,3,4) have "run_joins dim_data acc (take n js @ [js ! n]) = Inl (KeyError (snd (js ! n)))"
    by (simp add: run_joins_snoc merge_dim_def merge_left_missing_key)
  then have "run_joins dim_data acc ((take n js @ [js ! n]) @ drop (Suc n) js)
      = Inl (KeyError (snd (js ! n)))"
    by (simp only: run_joins_append run_joins_Inl)
  with js show ?thesis by (metis sum.disc(1))
qed

lemma missing_file_fails: "missing_file fs \<Longrightarrow> isl (load_data_try fs)"
  by (auto simp: missing_file_def load_data_try_def read_csv_def read_excel_def
      split: sum.splits option.splits)

lemma missing_sheet_fails:
  assumes "missing_sheet fs"
  shows "isl (load_data_try fs)"
proof -
  from assms obtain dim_data j where x: "xlsx fs = Some dim_data"
    and j: "j \<in> set dim_joins" "map_of dim_data (fst j) = None"
    by (auto simp: missing_sheet_def split: option.splits)
  show ?thesis
  proof (cases "read_csv fs")
    case (Inl e)
    then show ?thesis by (simp add: load_data_try_def)
  next
    case (Inr fact_df)
    from j have "isl (run_joins dim_data (Inr fact_df) dim_joins)"
      by (rule run_joins_missing_sheet)
    with Inr x show ?thesis
      by (auto simp: load_data_try_def read_excel_def split: sum.splits)
  qed
qed

lemma missing_join_key_fails:
  assumes "missing_join_key fs"
  shows "isl (load_data_try fs)"
proof -
  from assms obtain fact_df dim_data n f d where c: "csv fs = Some fact_df"
    and x: "xlsx fs = Some dim_data"
    and n: "n < length dim_joins"
    and f: "run_joins dim_data (Inr fact_df) (take n dim_joins) = Inr f"
    and d: "map_of dim_data (fst (dim_joins ! n)) = Some d"
    and k: "snd (dim_joins ! n) \<notin> set (columns f) \<or> snd (dim_joins ! n) \<notin> set (columns d)"
    unfolding missing_join_key_def
    by (auto split: option.splits sum.splits)
  from n f d k have "isl (run_joins dim_data (Inr fact_df) dim_joins)"
    by (rule run_joins_missing_key)
  with c x show ?thesis
    by (auto simp: load_data_try_def read_csv_def read_excel_def split: sum.splits)
qed

lemma run_joins_fails_at:
  assumes "n < length js"
    and "run_joins dim_data acc (take n js) = Inr f"
    and "merge_dim dim_data (Inr f) (js ! n) = Inl e"
  shows "run_joins dim_data acc js = Inl e"
proof -
  from assms(1) have js: "js = (take n js @ [js ! n]) @ drop (Suc n) js"
    by (simp add: id_take_nth_drop [symmetric])
  from assms(2,3) have "run_joins dim_data acc (take n js @ [js ! n]) = Inl e"
    by (simp add: run_joins_snoc)
  then have "run_joins dim_data acc ((take n js @ [js ! n]) @ drop (Suc n) js) = Inl e"
    by (simp only: run_joins_append run_joins_Inl)
  with js show ?thesis by simp
qed

lemma run_joins_first_failure:
  assumes "run_joins dim_data (Inr fact_df) js = Inl e"
  shows "\<exists>n < length js. \<exists>f. run_joins dim_data (Inr fact_df) (take n js) = Inr f \<and>
           merge_dim dim_data (Inr f) (js ! n) = Inl e"
  using assms
proof (induction js rule: rev_induct)
  case Nil
  then show ?case by (simp add: run_joins_def)
next
  case (snoc j js)
  show ?case
  proof (cases "run_joins dim_data (Inr fact_df) js")
    case (Inl e')
    with snoc.prems have "e' = e"
      by (simp add: run_joins_snoc merge_dim_def)
    with Inl snoc.IH obtain n f where "n < length js"
      and "run_joins dim_data (Inr fact_df) (take n js) = Inr f"
      and "merge_dim dim_data (Inr f) (js ! n) = Inl e"
      by auto
    then show ?thesis
      by (intro exI [of _ n]) (auto simp: nth_append)
  next
    case (Inr f)
    with snoc.prems have "merge_dim dim_data (Inr f) j = Inl e"
      by (simp add: run_joins_snoc)
    with Inr show ?thesis
      by (intro exI [of _ "length js"]) auto
  qed
qed

lemma merge_left_Inl:
  "merge_left left right on = Inl e \<Longrightarrow>
   e = KeyError on \<and> (on \<notin> set (columns left) \<or> on \<notin> set (columns right))"
  by (auto simp: merge_left_def get_loc_None [symmetric] split: option.splits)

lemma load_failure_names_missing:
  assumes "load_data_try fs = Inl e"
  shows "names_missing fs e"
proof (cases "csv fs")
  case None
  with assms show ?thesis
    by (simp add: load_data_try_def read_csv_def names_missing_def)
next
  case c: (Some fact_df)
  show ?thesis
  proof (cases "''accident_date'' \<in> set (columns fact_df)")
    case False
    with c assms show ?thesis
      by (simp add: load_data_try_def read_csv_def names_missing_def)
  next
    case a: True
    show ?thesis
    proof (cases "xlsx fs")
      case None
      with c a assms show ?thesis
        by (simp add: load_data_try_def read_csv_def read_excel_def names_missing_def)
    next
      case x: (Some dim_data)
      with c a assms have "run_joins dim_data (Inr fact_df) dim_joins = Inl e"
        by (simp add: load_data_try_def read_csv_def read_excel_def split: sum.splits)
      then obtain n f where n: "n < length dim_joins"
        and f: "run_joins dim_data (Inr fact_df) (take n dim_joins) = Inr f"
        and m: "merge_dim dim_data (Inr f) (dim_joins ! n) = Inl e"
        using run_joins_first_failure by blast
      from m have "case map_of dim_data (fst (dim_joins ! n)) of
            None \<Rightarrow> e = KeyError (fst (dim_joins ! n))
          | Some d \<Rightarrow> e = KeyError (snd (dim_joins ! n)) \<and>
              (snd (dim_joins ! n) \<notin> set (columns f) \<or> snd (dim_joins ! n) \<notin> set (columns d))"
        by (auto simp: merge_dim_def split: option.splits dest: merge_left_Inl)
      with n f have "\<exists>n < length dim_joins.
          case run_joins dim_data (Inr fact_df) (take n dim_joins) of
            Inl x \<Rightarrow> False
          | Inr f \<Rightarrow>
             (case map_of dim_data (fst (dim_joins ! n)) of
                None \<Rightarrow> e = KeyError (fst (dim_joins ! n))
              | Some d \<Rightarrow>
                 e = KeyError (snd (dim_joins ! n)) \<and>
                 (snd (dim_joins ! n) \<notin> set (columns f) \<or>
                  snd (dim_joins ! n) \<notin> set (columns d)))"
        by (intro exI [of _ n]) simp
      with c x show ?thesis
        by (simp add: names_missing_def)
    qed
  qed
qed

lemma missing_csv_cause:
  "csv fs = None \<Longrightarrow>
   load_data_try fs = Inl (FileNotFoundError ''Data/Cleaned_Traffic_Data.csv'')"
  by (simp add: load_data_try_def read_csv_def)

lemma missing_xlsx_cause:
  "csv fs = Some fact_df \<Longrightarrow> ''accident_date'' \<in> set (columns fact_df) \<Longrightarrow> xlsx fs = None \<Longrightarrow>
   load_data_try fs = Inl (FileNotFoundError ''Data/Dimtables.xlsx'')"
  by (simp add: load_data_try_def read_csv_def read_excel_def)

lemma missing_sheet_cause:
  assumes "csv fs = Some fact_df" and "''accident_date'' \<in> set (columns fact_df)"
    and "xlsx fs = Some dim_data" and "n < length dim_joins"
    and "run_joins dim_data (Inr fact_df) (take n dim_joins) = Inr f"
    and "map_of dim_data (fst (dim_joins ! n)) = None"
  shows "load_data_try fs = Inl (KeyError (fst (dim_joins ! n)))"
proof -
  from assms(6) have "merge_dim dim_data (Inr f) (dim_joins ! n) = Inl (KeyError (fst (dim_joins ! n)))"
    by (simp add: merge_dim_def)
  with assms(4,5) have "run_joins dim_data (Inr fact_df) dim_joins = Inl (KeyError (fst (dim_joins ! n)))"
    by (rule run_joins_fails_at)
  with assms(1,2,3) show ?thesis
    by (simp add: load_data_try_def read_csv_def read_excel_def)
qed

lemma missing_join_key_cause:
  assumes "csv fs = Some fact_df" and "''accident_date'' \<in> set (columns fact_df)"
    and "xlsx fs = Some dim_data" and "n < length dim_joins"
    and "run_joins dim_data (Inr fact_df) (take n dim_joins) = Inr f"
    and "map_of dim_data (fst (dim_joins ! n)) = Some d"
    and "snd (dim_joins ! n) \<notin> set (columns f) \<or> snd (dim_joins ! n) \<notin> set (columns d)"
  shows "load_data_try fs = Inl (KeyError (snd (dim_joins ! n)))"
proof -
  from assms(6,7) have "merge_dim dim_data (Inr f) (dim_joins ! n) = Inl (KeyError (snd (dim_joins ! n)))"
    by (simp add: merge_dim_def merge_left_missing_key)
  with assms(4,5) have "run_joins dim_data (Inr fact_df) dim_joins = Inl (KeyError (snd (dim_joins ! n)))"
    by (rule run_joins_fails_at)
  with assms(1,2,3) show ?thesis
    by (simp add: load_data_try_def read_csv_def read_excel_def)
qed

text \<open>
  Claim C3. A missing file, a missing sheet and a missing join key each make the body of
  the \<^verbatim>\<open>try\<close> raise, and the exception is the cause: the \<^verbatim>\<open>FileNotFoundError\<close> of the
  missing file, the \<^verbatim>\<open>KeyError\<close> of the missing sheet, the \<^verbatim>\<open>KeyError\<close> of the
  missing join column, for the first failure the loader meets. Whatever exception the
  body raises names something that is missing; \<^verbatim>\<open>load_data\<close> records that exception in
  an error log entry, shows the failure message and returns the empty frame with the
  empty dict (no partly merged frame), and the script then shows nothing but that
  message. Whenever the loaded frame is empty the script stops before the dashboard.
\<close>

theorem failed_load_is_terminal:
  "(missing_file fs \<or> missing_sheet fs \<or> missing_join_key fs \<longrightarrow> isl (load_data_try fs)) \<and>
   (\<forall>e. load_data_try fs = Inl e \<longrightarrow>
      names_missing fs e \<and>
      load_data fs =
        \<lparr>ret_df = \<lparr>columns = [], rows = []\<rparr>, ret_dim_data = [],
         logged = [LogError ''Error loading data: '' e],
         shown = [StError ''Failed to load data. Please check the log file for details.'']\<rparr> \<and>
      script fs dashboard =
        [StError ''Failed to load data. Please check the log file for details.'']) \<and>
   (frame_empty (ret_df (load_data fs)) \<longrightarrow> script fs dashboard = shown (load_data fs)) \<and>
   (csv fs = None \<longrightarrow>
      load_data_try fs = Inl (FileNotFoundError ''Data/Cleaned_Traffic_Data.csv'')) \<and>
   (\<forall>fact_df. csv fs = Some fact_df \<and> ''accident_date'' \<in> set (columns fact_df) \<and>
      xlsx fs = None \<longrightarrow>
      load_data_try fs = Inl (FileNotFoundError ''Data/Dimtables.xlsx'')) \<and>
   (\<forall>fact_df dim_data n f.
      csv fs = Some fact_df \<and> ''accident_date'' \<in> set (columns fact_df) \<and>
      xlsx fs = Some dim_data \<and> n < length dim_joins \<and>
      run_joins dim_data (Inr fact_df) (take n dim_joins) = Inr f \<longrightarrow>
      (map_of dim_data (fst (dim_joins ! n)) = None \<longrightarrow>
         load_data_try fs = Inl (KeyError (fst (dim_joins ! n)))) \<and>
      (\<forall>d. map_of dim_data (fst (dim_joins ! n)) = Some d \<and>
           (snd (dim_joins ! n) \<notin> set (columns f) \<or> snd (dim_joins ! n) \<notin> set (columns d)) \<longrightarrow>
         load_data_try fs = Inl (KeyError (snd (dim_joins ! n)))))"
proof (intro conjI allI impI)
  assume "missing_file fs \<or> missing_sheet fs \<or> missing_join_key fs"
  then show "isl (load_data_try fs)"
    using missing_file_fails [of fs] missing_sheet_fails [of fs] missing_join_key_fails [of fs]
    by blast
next
  fix e assume "load_data_try fs = Inl e"
  then show "names_missing fs e" by (rule load_failure_names_missing)
next
  fix e assume "load_data_try fs = Inl e"
  then show "load_data fs =
        \<lparr>ret_df = \<lparr>columns = [], rows = []\<rparr>, ret_dim_data = [],
         logged = [LogError ''Error loading data: '' e],
         shown = [StError ''Failed to load data. Please check the log file for details.'']\<rparr>"
    by (simp add: load_data_def)
next
  fix e assume "load_data_try fs = Inl e"
  then show "script fs dashboard =
        [StError ''Failed to load data. Please check the log file for details.'']"
    by (simp add: load_data_def script_def frame_empty_def Let_def)
next
  assume "frame_empty (ret_df (load_data fs))"
  then show "script fs dashboard = shown (load_data fs)"
    by (simp add: script_def Let_def)
next
  assume "csv fs = None"
  then show "load_data_try fs = Inl (FileNotFoundError ''Data/Cleaned_Traffic_Data.csv'')"
    by (rule missing_csv_cause)
next
  fix fact_df
  assume "csv fs = Some fact_df \<and> ''accident_date'' \<in> set (columns fact_df) \<and> xlsx fs = None"
  then show "load_data_try fs = Inl (FileNotFoundError ''Data/Dimtables.xlsx'')"
    using missing_xlsx_cause by blast
next
  fix fact_df dim_data n f
  assume "csv fs = Some fact_df \<and> ''accident_date'' \<in> set (columns fact_df) \<and>
      xlsx fs = Some dim_data \<and> n < length dim_joins \<and>
      run_joins dim_data (Inr fact_df) (take n dim_joins) = Inr f"
    and "map_of dim_data (fst (dim_joins ! n)) = None"
  then show "load_data_try fs = Inl (KeyError (fst (dim_joins ! n)))"
    using missing_sheet_cause by blast
next
  fix fact_df dim_data n f d
  assume "csv fs = Some fact_df \<and> ''accident_date'' \<in> set (columns fact_df) \<and>
      xlsx fs = Some dim_data \<and> n < length dim_joins \<and>
      run_joins dim_data (Inr fact_df) (take n dim_joins) = Inr f"
    and "map_of dim_data (fst (dim_joins ! n)) = Some d \<and>
           (snd (dim_joins ! n) \<notin> set (columns f) \<or> snd (dim_joins ! n) \<notin> set (columns d))"
  then show "load_data_try fs = Inl (KeyError (snd (dim_joins ! n)))"
    using missing_join_key_cause by blast
qed


theorem failed_load_is_terminal_witness:
  "load_data_try example_no_csv = Inl (FileNotFoundError ''Data/Cleaned_Traffic_Data.csv'') \<and>
   names_missing example_no_sheets (KeyError ''Dimlocation_type'') \<and>
   names_missing example_no_key (KeyError ''lightid'') \<and>
   load_data example_no_key =
     \<lparr>ret_df = \<lparr>columns = [], rows = []\<rparr>, ret_dim_data = [],
      logged = [LogError ''Error loading data: '' (KeyError ''lightid'')],
      shown = [StError ''Failed to load data. Please check the log file for details.'']\<rparr> \<and>
   load_data example_no_sheets =
     \<lparr>ret_df = \<lparr>columns = [], rows = []\<rparr>, ret_dim_data = [],
      logged = [LogError ''Error loading data: '' (KeyError ''Dimlocation_type'')],
      shown = [StError ''Failed to load data. Please check the log file for details.'']\<rparr> \<and>
   script example_no_sheets (\<lambda>df dim_data. [StElement ''Monthly Collision Trend''])
     = [StError ''Failed to load data. Please check the log file for details.'']"
proof -
  have c: "csv example_no_csv = None"
    by (simp add: example_no_csv_def)
  have s: "load_data_try example_no_sheets = Inl (KeyError ''Dimlocation_type'')"
    by (simp add: example_no_sheets_def load_data_try_def read_csv_def read_excel_def
        example_fact_def run_joins_def dim_joins_def merge_dim_def)
  have k: "load_data_try example_no_key = Inl (KeyError ''lightid'')"
    by (simp add: example_no_key_def loader_eval)
  show ?thesis
    using c s k
      failed_load_is_terminal [where fs = example_no_csv]
      failed_load_is_terminal [where fs = example_no_key]
      failed_load_is_terminal [where fs = example_no_sheets
        and dashboard = "\<lambda>df dim_data. [StElement ''Monthly Collision Trend'']"]
    by simp
qed

section \<open>Properties of the aggregates\<close>

lemma set_unique: "set (unique xs) = set xs"
  by (simp add: unique_def)

lemma distinct_unique: "distinct (unique xs)"
  by (simp add: unique_def)

lemma set_dropna: "set (dropna col) = {v. Some v \<in> set col}"
  by (induction col rule: dropna.induct) auto

lemma count_list_dropna:
  "count_list (dropna col) v = length (filter (\<lambda>c. c = Some v) col)"
  by (induction col rule: dropna.induct) auto

lemma count_list_pos: "0 < count_list xs v \<longleftrightarrow> v \<in> set xs"
  by (induction xs) auto

lemma distinct_map_insort_key:
  "distinct (map g (insort_key f x xs)) \<longleftrightarrow> g x \<notin> g ` set xs \<and> distinct (map g xs)"
  by (induction xs) (auto simp: set_insort_key)

lemma distinct_map_sort_key:
  "distinct (map g (sort_key f xs)) \<longleftrightarrow> distinct (map g xs)"
  by (induction xs) (auto simp: distinct_map_insort_key)

lemma map_of_sort_key:
  assumes "distinct (map fst xs)"
  shows "map_of (sort_key f xs) = map_of xs"
proof -
  from assms have "distinct (map fst (sort_key f xs))"
    by (simp add: distinct_map_sort_key)
  then show ?thesis
    using assms by (simp add: map_of_inject_set)
qed

lemma map_of_value_counts:
  "map_of (value_counts col) v =
     (if v \<in> set (dropna col) then Some (count_list (dropna col) v) else None)"
proof -
  have "distinct (map fst (map (\<lambda>v. (v, count_list (dropna col) v)) (unique (dropna col))))"
    by (simp add: comp_def distinct_unique)
  then show ?thesis
    by (simp add: value_counts_def Let_def map_of_sort_key map_of_map_restrict
        restrict_map_def set_unique)
qed

text \<open>
  Claim C8, as stated: a weekday absent from the table gets the count zero. The script
  reindexes the counts without a fill value, so for the table with the weekdays Monday,
  Monday, Tuesday the entries of Wednesday to Sunday hold a missing value, not zero.
\<close>

theorem weekday_counts_zero_counterexample:
  "weekday_counts example_weekdays \<noteq>
     [(''Monday'', Some 2), (''Tuesday'', Some 1), (''Wednesday'', Some 0),
      (''Thursday'', Some 0), (''Friday'', Some 0), (''Saturday'', Some 0),
      (''Sunday'', Some 0)]"
  by (simp add: weekday_counts_def reindex_def weekday_order_def value_counts_def
      unique_def example_weekdays_def row_on_def row_missing_def)

text \<open>
  Claim C8, amended. The weekday counts are one entry per day in the order Monday to
  Sunday; the entry of a day holds the number of rows with that weekday, and a missing
  value when no row has it.
\<close>

theorem weekday_counts_missing_for_absent:
  "weekday_counts fdf =
     map (\<lambda>d. (d, if occurrences d fdf = 0 then None else Some (occurrences d fdf)))
       weekday_order"
proof -
  have "map_of (value_counts (map weekday fdf)) d =
          (if occurrences d fdf = 0 then None else Some (occurrences d fdf))" for d
    using count_list_pos [of "dropna (map weekday fdf)" d]
    by (simp add: map_of_value_counts count_list_dropna occurrences_def
        filter_map comp_def)
  then show ?thesis
    by (simp add: weekday_counts_def reindex_def)
qed

theorem weekday_counts_missing_for_absent_witness:
  "weekday_counts example_weekdays =
     [(''Monday'', Some 2), (''Tuesday'', Some 1), (''Wednesday'', None),
      (''Thursday'', None), (''Friday'', None), (''Saturday'', None), (''Sunday'', None)]"
  using weekday_counts_missing_for_absent [of example_weekdays]
  by (simp add: occurrences_def weekday_order_def example_weekdays_def row_on_def
      row_missing_def)

lemma fold_max_Max: "fold max xs (a::nat) = Max (insert a (set xs))"
  using Max.set_eq_fold [of a xs] by simp

lemma set_mode: "set (mode col) = most_frequent col"
proof -
  let ?vals = "dropna col"
  let ?top = "Max (insert 0 (count_list ?vals ` set ?vals))"
  have "count_list ?vals v = ?top \<longleftrightarrow> (\<forall>w \<in> set ?vals. count_list ?vals w \<le> count_list ?vals v)"
    if "v \<in> set ?vals" for v
  proof
    assume "count_list ?vals v = ?top"
    then show "\<forall>w \<in> set ?vals. count_list ?vals w \<le> count_list ?vals v"
      by simp
  next
    assume "\<forall>w \<in> set ?vals. count_list ?vals w \<le> count_list ?vals v"
    with that show "count_list ?vals v = ?top"
      by (intro Max_eqI [symmetric]) auto
  qed
  then show ?thesis
    by (auto simp: mode_def Let_def most_frequent_def fold_max_Max set_unique)
qed

lemma sorted_mode: "sorted (mode col)"
  by (simp add: mode_def Let_def)

lemma item0_mode:
  assumes "most_frequent col \<noteq> {}"
  shows "item0 (mode col) = Inr (Min (most_frequent col))"
proof (cases "mode col")
  case Nil
  with assms set_mode [of col] show ?thesis by simp
next
  case (Cons m ms)
  with sorted_mode [of col] have "\<forall>y \<in> set (m # ms). m \<le> y" by auto
  then have "Min (set (m # ms)) = m"
    by (intro Min_eqI) auto
  with Cons set_mode [of col] show ?thesis
    by (simp add: item0_def)
qed

lemma most_frequent_Nil: "most_frequent [] = {}"
  by (simp add: most_frequent_def)

text \<open>
  Claim C7 holds for the empty table and for a column with a most frequent value, and
  fails for a table with rows whose column holds no value: there \<^verbatim>\<open>mode()\<close> is the
  empty series, \<^verbatim>\<open>[0]\<close> raises, and the summary logs a warning instead of showing
  \<^verbatim>\<open>N/A\<close>. The metrics after the failing one are not shown either.
\<close>

theorem mode_of_all_missing_column_raises:
  "top_day [] = Inr ''N/A'' \<and>
   top_day [row_missing] = Inl (KeyError ''0'') \<and>
   top_light [row_monday\<lparr>light := None\<rparr>] = Inl (KeyError ''0'') \<and>
   insight_summary [row_monday\<lparr>light := None\<rparr>] =
     ([StMetric ''Most Frequent Day'' ''Monday''],
      [LogWarning ''Insight summary error: '' (KeyError ''0'')])"
  by (simp add: insight_summary_def top_day_def top_light_def item0_def mode_def unique_def
      row_missing_def row_monday_def)

text \<open>
  Claim C10. When a column has a most frequent value, the summary shows the smallest of
  the values that tie for most frequent, in the lexicographic order of strings.
\<close>

theorem mode_ties_take_smallest:
  "(most_frequent (map weekday fdf) \<noteq> {} \<longrightarrow>
      top_day fdf = Inr (Min (most_frequent (map weekday fdf)))) \<and>
   (most_frequent (map light fdf) \<noteq> {} \<longrightarrow>
      top_light fdf = Inr (Min (most_frequent (map light fdf)))) \<and>
   (most_frequent (map road_surface_condition fdf) \<noteq> {} \<longrightarrow>
      top_surface fdf = Inr (Min (most_frequent (map road_surface_condition fdf))))"
  by (auto simp: top_day_def top_light_def top_surface_def item0_mode most_frequent_Nil)

theorem mode_ties_take_smallest_witness:
  "most_frequent (map weekday example_tie) = {''Friday'', ''Monday''} \<and>
   top_day example_tie = Inr ''Friday''"
proof -
  have m: "most_frequent (map weekday example_tie) = {''Friday'', ''Monday''}"
    by (auto simp: most_frequent_def example_tie_def row_on_def row_missing_def)
  then have "most_frequent (map weekday example_tie) \<noteq> {}"
    by simp
  with m show ?thesis
    using mode_ties_take_smallest [of example_tie] by simp
qed

lemma column_sum_missing_as_zero:
  "column_sum col = (\<Sum>c\<leftarrow>col. case c of None \<Rightarrow> 0 | Some n \<Rightarrow> n)"
  unfolding column_sum_def by (induction col rule: dropna.induct) auto

text \<open>
  Claim C9. For a table with rows the filtered injury rate is the sum of the injuries
  column, missing values counting as zero, divided by the number of rows; for the empty
  table it is 0. It is never an infinity or NaN, the results of a division by zero.
\<close>

theorem rate_defined_on_empty:
  "(fdf \<noteq> [] \<longrightarrow>
      filtered_avg_injury_rate fdf =
        Finite (of_int (\<Sum>r\<leftarrow>fdf. case num_of_injuries r of None \<Rightarrow> 0 | Some n \<Rightarrow> n)
                / of_nat (length fdf))) \<and>
   filtered_avg_injury_rate [] = Finite 0 \<and>
   filtered_avg_injury_rate fdf \<notin> {PosInf, NegInf, NotANumber}"
  by (auto simp: filtered_avg_injury_rate_def true_divide_def column_sum_missing_as_zero
      comp_def)

theorem rate_defined_on_empty_witness:
  "filtered_avg_injury_rate example_weekdays = Finite (5 / 3) \<and>
   filtered_avg_injury_rate [] = Finite 0 \<and>
   all_avg_injury_rate [] = NotANumber"
  using rate_defined_on_empty [of example_weekdays]
  by (simp add: example_weekdays_def row_on_def row_missing_def all_avg_injury_rate_def
      true_divide_def column_sum_def)

end
